theory Spec2Isabelle
  imports Complex_Main "HOL-Library.AList"
begin

section \<open>Python values\<close>

text \<open>
  The scraper (\<^verbatim>\<open>src/scrape/scrape_restaurants.py\<close>) moves JSON-shaped Python values
  between the provider, the two cache directories and the aggregate map. A value is a
  \<open>json\<close>; a Python \<^verbatim>\<open>dict\<close> with string keys is an association list in insertion
  order (\<open>pydict\<close>), looked up with \<open>map_of\<close> and written with \<open>AList.update\<close>, which
  overwrites in place or appends, as assignment to a dict key does. Python's floats are
  idealised as reals; an \<^verbatim>\<open>int\<close> and the float of the same value are the same \<open>JNum\<close>.
\<close>

datatype json =
    JNull
  | JBool bool
  | JNum real
  | JStr string
  | JArr "json list"
  | JObj "(string \<times> json) list"

type_synonym pydict = "(string \<times> json) list"

text \<open>Truth value of a Python object, as \<^verbatim>\<open>if x:\<close> and \<^verbatim>\<open>x or y\<close> test it.\<close>

fun truthy :: "json \<Rightarrow> bool" where
  "truthy JNull = False"
| "truthy (JBool b) = b"
| "truthy (JNum x) = (x \<noteq> 0)"
| "truthy (JStr s) = (s \<noteq> [])"
| "truthy (JArr xs) = (xs \<noteq> [])"
| "truthy (JObj d) = (d \<noteq> [])"

text \<open>\<^verbatim>\<open>d.get(k)\<close>: the value, or \<^verbatim>\<open>None\<close> for a missing key.\<close>

definition dict_get :: "pydict \<Rightarrow> string \<Rightarrow> json" where
  "dict_get d k = (case map_of d k of None \<Rightarrow> JNull | Some v \<Rightarrow> v)"

text \<open>\<^verbatim>\<open>d.update(e)\<close>: every item of \<open>e\<close> is assigned into \<open>d\<close>, in the order of \<open>e\<close>.\<close>

definition dict_update :: "pydict \<Rightarrow> pydict \<Rightarrow> pydict" where
  "dict_update d e = fold (\<lambda>(k, v) acc. AList.update k v acc) e d"

text \<open>
  Exceptions that leave a function of the scraper. The provider's exceptions are caught
  where they occur and are only looked at through \<^verbatim>\<open>str(e)\<close>, so a failing provider call
  is a string (see \<open>client\<close> below).
\<close>

datatype py_exn =
    JSONDecodeError
  | IOError
  | UnicodeDecodeError
  | ZeroDivisionError
  | TypeError
  | AttributeError

section \<open>The two cache directories\<close>

text \<open>
  A cache directory holds one file per key: \<^verbatim>\<open>cache/grid/<lat_low>_<lon_low>_<lat_high>_<lon_high>.json\<close>
  for a cell and \<^verbatim>\<open>cache/details/<place_id>.json\<close> for a place. The file name is a
  rendering of the key that tells keys apart, so a directory is a partial map from keys
  to files. A file is what \<^verbatim>\<open>open\<close> followed by \<^verbatim>\<open>json.load\<close> makes of it: the decoded
  value (\<^verbatim>\<open>json.dump\<close> followed by \<^verbatim>\<open>json.load\<close> gives the value back), or the
  exception that reading it raises. Writes always succeed.
\<close>

datatype cache_file = Content json | Corrupt py_exn

record GridCell =
  lat_low :: real
  lon_low :: real
  lat_high :: real
  lon_high :: real

type_synonym grid_dir = "GridCell \<rightharpoonup> cache_file"
type_synonym details_dir = "json \<rightharpoonup> cache_file"

text \<open>
  \<^verbatim>\<open>load_grid_cache\<close>: \<^verbatim>\<open>None\<close> when the file does not exist or reading raises
  \<^verbatim>\<open>json.JSONDecodeError\<close> or \<^verbatim>\<open>IOError\<close>; the decoded list, or \<^verbatim>\<open>[]\<close> when the decoded
  value is not a list. Any other exception is not caught and leaves the loader.
\<close>

definition load_grid_cache :: "grid_dir \<Rightarrow> GridCell \<Rightarrow> py_exn + json list option" where
  "load_grid_cache dir cell =
     (case dir cell of
        None \<Rightarrow> Inr None
      | Some (Content cached_data) \<Rightarrow>
          Inr (Some (case cached_data of JArr xs \<Rightarrow> xs | _ \<Rightarrow> []))
      | Some (Corrupt e) \<Rightarrow>
          (if e = JSONDecodeError \<or> e = IOError then Inr None else Inl e))"

definition save_grid_cache :: "GridCell \<Rightarrow> json list \<Rightarrow> grid_dir \<Rightarrow> grid_dir" where
  "save_grid_cache cell results dir = dir(cell \<mapsto> Content (JArr results))"

text \<open>
  The marker written for "no details": \<^verbatim>\<open>{"_empty": True}\<close>. The loader compares with
  Python's \<^verbatim>\<open>==\<close>, under which \<^verbatim>\<open>True == 1\<close>.
\<close>

definition empty_marker :: pydict where
  "empty_marker = [(''_empty'', JBool True)]"

fun is_empty_marker :: "json \<Rightarrow> bool" where
  "is_empty_marker (JObj [(k, v)]) = (k = ''_empty'' \<and> (v = JBool True \<or> v = JNum 1))"
| "is_empty_marker _ = False"

definition load_details_cache :: "details_dir \<Rightarrow> json \<Rightarrow> py_exn + pydict option" where
  "load_details_cache dir place_id =
     (case dir place_id of
        None \<Rightarrow> Inr None
      | Some (Content cached_data) \<Rightarrow>
          (if is_empty_marker cached_data then Inr (Some [])
           else Inr (Some (case cached_data of JObj d \<Rightarrow> d | _ \<Rightarrow> [])))
      | Some (Corrupt e) \<Rightarrow>
          (if e = JSONDecodeError \<or> e = IOError then Inr None else Inl e))"

definition save_details_cache :: "json \<Rightarrow> pydict option \<Rightarrow> details_dir \<Rightarrow> details_dir" where
  "save_details_cache place_id details dir =
     (let data_to_save = (case details of Some d \<Rightarrow> d | None \<Rightarrow> empty_marker)
      in dir(place_id \<mapsto> Content (JObj data_to_save)))"

text \<open>
  The specification's tri-state reading of what a loader returns: \<^verbatim>\<open>None\<close> is Absent,
  an empty list or dict is Empty, anything else is Present.
\<close>

datatype 'a cache_record = Absent | Empty | Present 'a

definition cache_record :: "'a list option \<Rightarrow> 'a list cache_record" where
  "cache_record r = (case r of None \<Rightarrow> Absent | Some [] \<Rightarrow> Empty | Some xs \<Rightarrow> Present xs)"

section \<open>Geometry: the boundary polygon and the grid\<close>

text \<open>
  The boundary is a \<^verbatim>\<open>shapely\<close> polygon. Of the library only three predicates are used,
  and they are modelled by what they mean: a polygon is its open interior and its
  boundary, as sets of points \<open>(x, y) = (lon, lat)\<close>; \<^verbatim>\<open>contains\<close> of a point is
  membership in the interior, \<^verbatim>\<open>touches\<close> of a point is membership in the boundary, and
  two polygons \<^verbatim>\<open>intersect\<close> when they share a point of interior or boundary. A run whose
  boundary failed to load (\<^verbatim>\<open>MANHATTAN_POLYGON\<close> still \<^verbatim>\<open>None\<close>) is outside the model.
\<close>

type_synonym point = "real \<times> real"

record polygon =
  poly_interior :: "point set"
  poly_boundary :: "point set"

definition polygon_contains :: "polygon \<Rightarrow> point \<Rightarrow> bool" where
  "polygon_contains poly pt = (pt \<in> poly_interior poly)"

definition polygon_touches :: "polygon \<Rightarrow> point \<Rightarrow> bool" where
  "polygon_touches poly pt = (pt \<in> poly_boundary poly)"

definition polygon_intersects :: "polygon \<Rightarrow> polygon \<Rightarrow> bool" where
  "polygon_intersects a b =
     ((poly_interior a \<union> poly_boundary a) \<inter> (poly_interior b \<union> poly_boundary b) \<noteq> {})"

text \<open>
  \<^verbatim>\<open>Polygon([(x0, y0), (x1, y0), (x1, y1), (x0, y1), (x0, y0)])\<close>, the polygon on the
  ring of an axis-parallel rectangle: the open rectangle and its frame.
\<close>

definition rectangle_polygon :: "real \<Rightarrow> real \<Rightarrow> real \<Rightarrow> real \<Rightarrow> polygon" where
  "rectangle_polygon x0 y0 x1 y1 =
     \<lparr> poly_interior = {(x, y). x0 < x \<and> x < x1 \<and> y0 < y \<and> y < y1},
       poly_boundary = {(x, y). x0 \<le> x \<and> x \<le> x1 \<and> y0 \<le> y \<and> y \<le> y1 \<and>
                                (x = x0 \<or> x = x1 \<or> y = y0 \<or> y = y1)} \<rparr>"

definition point_in_manhattan :: "polygon \<Rightarrow> real \<Rightarrow> real \<Rightarrow> bool" where
  "point_in_manhattan polygon lat lon =
     (let point = (lon, lat)
      in polygon_contains polygon point \<or> polygon_touches polygon point)"

definition cell_polygon :: "GridCell \<Rightarrow> polygon" where
  "cell_polygon cell =
     rectangle_polygon (lon_low cell) (lat_low cell) (lon_high cell) (lat_high cell)"

definition cell_overlaps_manhattan :: "polygon \<Rightarrow> GridCell \<Rightarrow> bool" where
  "cell_overlaps_manhattan polygon cell =
     (let center_lat = (lat_low cell + lat_high cell) / 2;
          center_lon = (lon_low cell + lon_high cell) / 2
      in if point_in_manhattan polygon center_lat center_lon then True
         else
           let corners = [(lat_low cell, lon_low cell), (lat_low cell, lon_high cell),
                          (lat_high cell, lon_low cell), (lat_high cell, lon_high cell)]
           in if list_ex (\<lambda>(lat, lon). point_in_manhattan polygon lat lon) corners then True
              else polygon_intersects (cell_polygon cell) polygon)"

text \<open>
  \<^verbatim>\<open>MANHATTAN_BOUNDS\<close> and \<^verbatim>\<open>GRID_SIZE\<close> are module constants (the box
  40.70..40.88 by -74.05..-73.90 and 250); the grid is modelled for any box and size.
  Dividing by a \<^verbatim>\<open>GRID_SIZE\<close> of 0 raises.
\<close>

record bounds =
  b_lat_low :: real
  b_lat_high :: real
  b_lon_low :: real
  b_lon_high :: real

definition grid_cell :: "bounds \<Rightarrow> nat \<Rightarrow> nat \<Rightarrow> nat \<Rightarrow> GridCell" where
  "grid_cell b grid_size i j =
     (let lat_step = (b_lat_high b - b_lat_low b) / real grid_size;
          lon_step = (b_lon_high b - b_lon_low b) / real grid_size
      in \<lparr> lat_low = b_lat_low b + real i * lat_step,
           lon_low = b_lon_low b + real j * lon_step,
           lat_high = b_lat_low b + real (i + 1) * lat_step,
           lon_high = b_lon_low b + real (j + 1) * lon_step \<rparr>)"

definition generate_grid_cells :: "bounds \<Rightarrow> nat \<Rightarrow> polygon \<Rightarrow> py_exn + GridCell list" where
  "generate_grid_cells b grid_size polygon =
     (if grid_size = 0 then Inl ZeroDivisionError
      else Inr (concat (map (\<lambda>i. concat (map (\<lambda>j.
                  let cell = grid_cell b grid_size i j
                  in if cell_overlaps_manhattan polygon cell then [cell] else [])
                [0..<grid_size])) [0..<grid_size])))"

text \<open>The whole lattice, before the overlap test: what the two loops enumerate.\<close>

definition lattice_cells :: "bounds \<Rightarrow> nat \<Rightarrow> GridCell list" where
  "lattice_cells b grid_size =
     concat (map (\<lambda>i. map (\<lambda>j. grid_cell b grid_size i j) [0..<grid_size]) [0..<grid_size])"

text \<open>The closed rectangle of a cell and the closed region of a polygon, as point sets.\<close>

definition cell_rectangle :: "GridCell \<Rightarrow> point set" where
  "cell_rectangle cell =
     {(x, y). lon_low cell \<le> x \<and> x \<le> lon_high cell \<and> lat_low cell \<le> y \<and> y \<le> lat_high cell}"

definition polygon_region :: "polygon \<Rightarrow> point set" where
  "polygon_region poly = poly_interior poly \<union> poly_boundary poly"

section \<open>The search radius\<close>

text \<open>
  \<^verbatim>\<open>int(x)\<close> truncates towards zero; \<^verbatim>\<open>math.radians\<close> multiplies by \<open>pi / 180\<close>. The
  radius is computed inside \<^verbatim>\<open>search_by_type_async\<close> (lines 345 to 357) and carries the
  name of its local variable.
\<close>

definition py_int :: "real \<Rightarrow> int" where
  "py_int x = (if 0 \<le> x then \<lfloor>x\<rfloor> else \<lceil>x\<rceil>)"

definition radians :: "real \<Rightarrow> real" where
  "radians x = x * pi / 180"

definition radius_meters :: "GridCell \<Rightarrow> int" where
  "radius_meters cell =
     (let center_lat = (lat_low cell + lat_high cell) / 2;
          lat_diff = lat_high cell - lat_low cell;
          lon_diff = lon_high cell - lon_low cell;
          lat_meters = lat_diff * 111000;
          lon_meters = lon_diff * 111000 * cos (radians center_lat);
          cell_diagonal = sqrt (lat_meters\<^sup>2 + lon_meters\<^sup>2);
          radius = py_int (cell_diagonal + 100)
      in min radius 50000)"

text \<open>The diagonal of the cell in meters, by the same conversion.\<close>

definition cell_diagonal_meters :: "GridCell \<Rightarrow> real" where
  "cell_diagonal_meters cell =
     sqrt (((lat_high cell - lat_low cell) * 111000)\<^sup>2 +
           ((lon_high cell - lon_low cell) * 111000 *
              cos (radians ((lat_low cell + lat_high cell) / 2)))\<^sup>2)"

section \<open>The provider\<close>

text \<open>
  What the Places client returns, as far as the scraper reads it. A protobuf field always
  exists, so every \<^verbatim>\<open>hasattr\<close> test of the source holds; a message field that is unset, an
  enum of value 0 and an empty string are falsy, and an unset message or enum is \<open>None\<close>
  here. A publish time is either a protobuf \<^verbatim>\<open>Timestamp\<close> (seconds and nanoseconds) or
  some other object without a \<^verbatim>\<open>seconds\<close> attribute, known by its \<^verbatim>\<open>str\<close>.
\<close>

record LatLng =
  latitude :: real
  longitude :: real

record LocalizedText =
  lt_text :: string
  language_code :: string

record ReviewSummary =
  rs_text :: "LocalizedText option"
  reviews_uri :: string
  disclosure_text :: "LocalizedText option"

datatype publish_time = Timestamp int int | OtherTime string

record AuthorAttribution =
  a_display_name :: string
  a_uri :: string
  a_photo_uri :: string

record Review =
  r_rating :: real
  r_text :: "LocalizedText option"
  author_attribution :: "AuthorAttribution option"
  r_publish_time :: "publish_time option"

record GenerativeSummary =
  overview :: "LocalizedText option"
  description :: "LocalizedText option"

record Place =
  p_id :: string
  display_name :: "LocalizedText option"
  formatted_address :: string
  location :: "LatLng option"
  types :: "string list"
  rating :: real
  user_rating_count :: int
  price_level :: "string option"
  website_uri :: string
  national_phone_number :: string
  business_status :: "string option"
  review_summary :: "ReviewSummary option"
  reviews :: "Review list"
  generative_summary :: "GenerativeSummary option"

record SearchNearbyResponse =
  places :: "Place list"
  next_page_token :: string

datatype SearchNearbyRequest =
    FirstPage LatLng int "string list" nat
  | NextPage string nat

text \<open>
  What a run does to the outside world, in order: the requests it sends and the sleeps
  it takes. A request is recorded when it is sent, whether or not it fails.
\<close>

datatype event = SearchNearby SearchNearbyRequest | GetPlace json | Sleep real

text \<open>
  The client answers a request with a response or raises; the answer may depend on
  everything the run did before. A raised exception is its \<^verbatim>\<open>str\<close>.
\<close>

record client =
  search_nearby :: "event list \<Rightarrow> SearchNearbyRequest \<Rightarrow> string + SearchNearbyResponse"
  get_place :: "event list \<Rightarrow> json \<Rightarrow> string + Place"

definition SLEEP_TIME :: real where "SLEEP_TIME = 30"
definition MAX_REVIEWS :: nat where "MAX_REVIEWS = 10"
definition DETAILS_DELAY :: real where "DETAILS_DELAY = 1 / 10"
definition max_pages :: nat where "max_pages = 3"

text \<open>\<^verbatim>\<open>needle in hay\<close> for strings.\<close>

fun str_contains :: "string \<Rightarrow> string \<Rightarrow> bool" where
  "str_contains needle [] = (needle = [])"
| "str_contains needle (c # cs) =
     (take (length needle) (c # cs) = needle \<or> str_contains needle cs)"

definition is_rate_limit :: "string \<Rightarrow> bool" where
  "is_rate_limit error_str =
     (str_contains ''429'' error_str \<or> str_contains ''RESOURCE_EXHAUSTED'' error_str)"

text \<open>
  The handler shared by both gateways: a rate-limit signal sleeps \<^verbatim>\<open>SLEEP_TIME\<close>, any
  other error is only printed.
\<close>

definition on_exception :: "string \<Rightarrow> event list \<Rightarrow> event list" where
  "on_exception error_str evs =
     (if is_rate_limit error_str then evs @ [Sleep SLEEP_TIME] else evs)"

section \<open>Search of one cell\<close>

definition localized_text :: "LocalizedText \<Rightarrow> json" where
  "localized_text t = JObj [(''text'', JStr (lt_text t)), (''languageCode'', JStr (language_code t))]"

definition review_summary_dict :: "ReviewSummary \<Rightarrow> json" where
  "review_summary_dict rs =
     JObj [(''text'', (case rs_text rs of Some t \<Rightarrow> localized_text t | None \<Rightarrow> JNull)),
           (''reviewsUri'', JStr (reviews_uri rs)),
           (''disclosureText'',
              (case disclosure_text rs of Some t \<Rightarrow> localized_text t | None \<Rightarrow> JNull))]"

definition opt_name :: "string option \<Rightarrow> json" where
  "opt_name e = (case e of Some n \<Rightarrow> JStr n | None \<Rightarrow> JNull)"

definition convert_place_to_dict :: "Place \<Rightarrow> pydict" where
  "convert_place_to_dict place =
     [(''id'', JStr (p_id place))]
     @ (case display_name place of Some dn \<Rightarrow> [(''displayName'', localized_text dn)] | None \<Rightarrow> [])
     @ [(''formattedAddress'', JStr (formatted_address place))]
     @ (case location place of
          Some l \<Rightarrow> [(''location'', JObj [(''latitude'', JNum (latitude l)),
                                               (''longitude'', JNum (longitude l))])]
        | None \<Rightarrow> [])
     @ [(''types'', JArr (map JStr (types place))),
        (''rating'', JNum (rating place)),
        (''userRatingCount'', JNum (real_of_int (user_rating_count place))),
        (''priceLevel'', opt_name (price_level place)),
        (''websiteUri'', JStr (website_uri place)),
        (''nationalPhoneNumber'', JStr (national_phone_number place)),
        (''businessStatus'', opt_name (business_status place))]
     @ (case review_summary place of
          Some rs \<Rightarrow> [(''reviewSummary'', review_summary_dict rs)] | None \<Rightarrow> [])"

text \<open>\<^verbatim>\<open>d.get('websiteUri') or d.get('website_uri')\<close>, as a truth value.\<close>

definition has_website :: "pydict \<Rightarrow> bool" where
  "has_website d = (truthy (dict_get d ''websiteUri'') \<or> truthy (dict_get d ''website_uri''))"

definition cell_center :: "GridCell \<Rightarrow> LatLng" where
  "cell_center cell =
     \<lparr> latitude = (lat_low cell + lat_high cell) / 2,
       longitude = (lon_low cell + lon_high cell) / 2 \<rparr>"

text \<open>
  The \<^verbatim>\<open>while page_num <= max_pages\<close> loop of \<^verbatim>\<open>search_by_type_async\<close>, with its
  \<^verbatim>\<open>try\<close>: an exception of the client ends the loop through the handler, and the function
  returns whatever \<^verbatim>\<open>all_results\<close> holds by then.
\<close>

function search_pages ::
  "client \<Rightarrow> string list \<Rightarrow> GridCell \<Rightarrow> nat \<Rightarrow> string option \<Rightarrow> json list \<Rightarrow> event list
     \<Rightarrow> json list \<times> event list" where
  "search_pages cl included_types cell page_num token all_results evs =
     (if page_num \<le> max_pages then
        (let request =
               (case token of
                  Some t \<Rightarrow> NextPage t 20
                | None \<Rightarrow> FirstPage (cell_center cell) (radius_meters cell) included_types 20);
             evs1 = evs @ [SearchNearby request]
         in case search_nearby cl evs request of
              Inl error_str \<Rightarrow> (all_results, on_exception error_str evs1)
            | Inr response \<Rightarrow>
                (let page_results =
                       map JObj (filter has_website (map convert_place_to_dict (places response)));
                     all_results1 = all_results @ page_results
                 in if next_page_token response \<noteq> []
                    then search_pages cl included_types cell (page_num + 1)
                           (Some (next_page_token response)) all_results1 (evs1 @ [Sleep 2])
                    else (all_results1, evs1)))
      else (all_results, evs))"
  by pat_completeness auto
termination
  by (relation "measure (\<lambda>(cl, tys, cell, page_num, token, rs, evs). Suc max_pages - page_num)")
     auto

definition search_by_type_async ::
  "client \<Rightarrow> string list \<Rightarrow> GridCell \<Rightarrow> event list \<Rightarrow> json list \<times> event list" where
  "search_by_type_async cl included_types cell evs =
     search_pages cl included_types cell 1 None [] evs"

text \<open>The state a run works on: the two cache directories and the record of events.\<close>

record state =
  grid_cache :: grid_dir
  details_cache :: details_dir
  events :: "event list"

text \<open>
  \<^verbatim>\<open>process_cell_async\<close> returns \<^verbatim>\<open>(results, from_cache, made_api_call)\<close>. The semaphore
  only bounds how many units run at once and is not modelled.
\<close>

definition process_cell_async ::
  "client \<Rightarrow> GridCell \<Rightarrow> state \<Rightarrow> py_exn + ((json list \<times> bool \<times> bool) \<times> state)" where
  "process_cell_async cl cell s =
     (case load_grid_cache (grid_cache s) cell of
        Inl e \<Rightarrow> Inl e
      | Inr (Some cached_results) \<Rightarrow> Inr ((cached_results, True, False), s)
      | Inr None \<Rightarrow>
          (let (results, evs) = search_by_type_async cl [''restaurant''] cell (events s)
           in Inr ((results, False, True),
                   s\<lparr> grid_cache := save_grid_cache cell results (grid_cache s),
                      events := evs \<rparr>)))"

section \<open>Details of one place\<close>

text \<open>
  The sort key \<^verbatim>\<open>get_publish_time\<close>: the seconds of a \<^verbatim>\<open>Timestamp\<close>, and 0 for a review
  without a publish time or with one that has no \<^verbatim>\<open>seconds\<close>.
\<close>

definition get_publish_time :: "Review \<Rightarrow> int" where
  "get_publish_time review =
     (case r_publish_time review of
        Some (Timestamp secs nanos) \<Rightarrow> secs
      | Some (OtherTime _) \<Rightarrow> 0
      | None \<Rightarrow> 0)"

text \<open>
  \<^verbatim>\<open>sorted(xs, key=f, reverse=True)\<close>: descending by key and stable, elements of equal
  key keep the order they came in. \<open>sort_key\<close> is the stable ascending insertion sort.
\<close>

definition py_sorted_reverse :: "('a \<Rightarrow> int) \<Rightarrow> 'a list \<Rightarrow> 'a list" where
  "py_sorted_reverse f xs = rev (sort_key f (rev xs))"

text \<open>
  The reviews the detail fetch keeps: \<^verbatim>\<open>sorted_reviews[:MAX_REVIEWS]\<close>.
\<close>

definition kept_reviews :: "Review list \<Rightarrow> Review list" where
  "kept_reviews rs = take MAX_REVIEWS (py_sorted_reverse get_publish_time rs)"

text \<open>
  The rendering of a publish time as a string (\<^verbatim>\<open>datetime.fromtimestamp(...).isoformat() + 'Z'\<close>
  for a \<^verbatim>\<open>Timestamp\<close>, \<^verbatim>\<open>str\<close> otherwise) belongs to the standard library and is the
  parameter \<open>fmt\<close>.
\<close>

definition review_dict :: "(publish_time \<Rightarrow> string) \<Rightarrow> Review \<Rightarrow> json" where
  "review_dict fmt review =
     JObj ([(''rating'', JNum (r_rating review))]
       @ (case r_text review of Some t \<Rightarrow> [(''text'', localized_text t)] | None \<Rightarrow> [])
       @ (case author_attribution review of
            Some author \<Rightarrow>
              [(''authorAttribution'',
                 JObj [(''displayName'', JStr (a_display_name author)),
                       (''uri'', JStr (a_uri author)),
                       (''photoUri'', JStr (a_photo_uri author))])]
          | None \<Rightarrow> [])
       @ (case r_publish_time review of
            Some t \<Rightarrow> [(''publishTime'', JStr (fmt t))] | None \<Rightarrow> []))"

definition generative_summary_dict :: "GenerativeSummary \<Rightarrow> json" where
  "generative_summary_dict gen_summary =
     JObj ((case overview gen_summary of
              Some t \<Rightarrow> [(''overview'', localized_text t)] | None \<Rightarrow> [])
         @ (case description gen_summary of
              Some t \<Rightarrow> [(''description'', localized_text t)] | None \<Rightarrow> []))"

text \<open>The dict \<^verbatim>\<open>details\<close> that \<^verbatim>\<open>get_place_details_async\<close> builds from a response.\<close>

definition details_of_response :: "(publish_time \<Rightarrow> string) \<Rightarrow> Place \<Rightarrow> pydict" where
  "details_of_response fmt response =
     (if reviews response \<noteq> []
      then [(''reviews'', JArr (map (review_dict fmt) (kept_reviews (reviews response))))]
      else [])
     @ (case generative_summary response of
          Some gen_summary \<Rightarrow> [(''generativeSummary'', generative_summary_dict gen_summary)]
        | None \<Rightarrow> [])
     @ (case review_summary response of
          Some rs \<Rightarrow> [(''reviewSummary'', review_summary_dict rs)]
        | None \<Rightarrow> [])"

definition get_place_details_async ::
  "client \<Rightarrow> (publish_time \<Rightarrow> string) \<Rightarrow> json \<Rightarrow> event list \<Rightarrow> pydict option \<times> event list" where
  "get_place_details_async cl fmt place_id evs =
     (let evs1 = evs @ [GetPlace place_id]
      in case get_place cl evs place_id of
           Inl error_str \<Rightarrow> (None, on_exception error_str evs1)
         | Inr response \<Rightarrow>
             (let details = details_of_response fmt response
              in (if details \<noteq> [] then Some details else None, evs1)))"

text \<open>
  \<^verbatim>\<open>enrich_restaurant_async\<close> updates the restaurant's dict in place; the model returns
  the updated dict with the two flags \<^verbatim>\<open>(from_cache, made_api_call)\<close>.
\<close>

definition enrich_restaurant_async ::
  "client \<Rightarrow> (publish_time \<Rightarrow> string) \<Rightarrow> json \<Rightarrow> pydict \<Rightarrow> state
     \<Rightarrow> py_exn + ((pydict \<times> bool \<times> bool) \<times> state)" where
  "enrich_restaurant_async cl fmt place_id restaurant s =
     (case load_details_cache (details_cache s) place_id of
        Inl e \<Rightarrow> Inl e
      | Inr (Some cached_details) \<Rightarrow>
          Inr ((if cached_details \<noteq> [] then dict_update restaurant cached_details
                else restaurant, True, False), s)
      | Inr None \<Rightarrow>
          (let (details, evs) = get_place_details_async cl fmt place_id (events s);
               s1 = s\<lparr> details_cache := save_details_cache place_id details (details_cache s),
                        events := evs \<rparr>
           in case details of
                Some d \<Rightarrow>
                  (if d \<noteq> []
                   then Inr ((dict_update restaurant d, False, True),
                             s1\<lparr> events := evs @ [Sleep DETAILS_DELAY] \<rparr>)
                   else Inr ((restaurant, False, True), s1))
              | None \<Rightarrow> Inr ((restaurant, False, True), s1)))"

section \<open>The two phases\<close>

text \<open>
  The cell units run concurrently and \<^verbatim>\<open>as_completed\<close> hands their results over in the
  order they finish, which is not the order of the cells. The model runs the units one
  after another, each as a whole, in a completion order \<open>order\<close> given from outside (a
  rearrangement of the cells); \<^verbatim>\<open>results_list\<close> is in that order. An exception of a unit
  leaves the loop.
\<close>

fun process_cells ::
  "client \<Rightarrow> GridCell list \<Rightarrow> state \<Rightarrow> py_exn + (json list list \<times> state)" where
  "process_cells cl [] s = Inr ([], s)"
| "process_cells cl (cell # cells) s =
     (case process_cell_async cl cell s of
        Inl e \<Rightarrow> Inl e
      | Inr ((results, from_cache, made_api_call), s1) \<Rightarrow>
          (case process_cells cl cells s1 of
             Inl e \<Rightarrow> Inl e
           | Inr (results_list, s2) \<Rightarrow> Inr (results # results_list, s2)))"

text \<open>
  The aggregation loop: \<^verbatim>\<open>if 'id' in result\<close>, then the website test, then
  \<^verbatim>\<open>all_restaurants[result['id']] = result\<close>. A cached list may hold anything; on a value
  that is not a dict Python answers \<^verbatim>\<open>'id' in result\<close> for a string or list and raises
  for the rest, and \<^verbatim>\<open>result.get\<close> raises; a list or dict as the id cannot be a key.
  Keys are compared as values (Python also takes \<^verbatim>\<open>True\<close> and \<^verbatim>\<open>1\<close> for one key; the
  provider's ids are strings).
\<close>

type_synonym restaurants = "(json \<times> pydict) list"

fun hashable :: "json \<Rightarrow> bool" where
  "hashable (JArr _) = False"
| "hashable (JObj _) = False"
| "hashable _ = True"

fun insert_result :: "json \<Rightarrow> restaurants \<Rightarrow> py_exn + restaurants" where
  "insert_result (JObj result) all_restaurants =
     (case map_of result ''id'' of
        None \<Rightarrow> Inr all_restaurants
      | Some rid \<Rightarrow>
          (if has_website result
           then (if hashable rid then Inr (AList.update rid result all_restaurants)
                 else Inl TypeError)
           else Inr all_restaurants))"
| "insert_result (JStr s) all_restaurants =
     (if str_contains ''id'' s then Inl AttributeError else Inr all_restaurants)"
| "insert_result (JArr xs) all_restaurants =
     (if JStr ''id'' \<in> set xs then Inl AttributeError else Inr all_restaurants)"
| "insert_result _ all_restaurants = Inl TypeError"

fun insert_results :: "json list \<Rightarrow> restaurants \<Rightarrow> py_exn + restaurants" where
  "insert_results [] all_restaurants = Inr all_restaurants"
| "insert_results (result # results) all_restaurants =
     (case insert_result result all_restaurants of
        Inl e \<Rightarrow> Inl e
      | Inr m \<Rightarrow> insert_results results m)"

definition aggregate :: "json list list \<Rightarrow> py_exn + restaurants" where
  "aggregate results_list = insert_results (concat results_list) []"

definition scrape_grid_cells_async ::
  "client \<Rightarrow> (GridCell list \<Rightarrow> GridCell list) \<Rightarrow> bounds \<Rightarrow> nat \<Rightarrow> polygon \<Rightarrow> state
     \<Rightarrow> py_exn + (restaurants \<times> state)" where
  "scrape_grid_cells_async cl order b grid_size polygon s =
     (case generate_grid_cells b grid_size polygon of
        Inl e \<Rightarrow> Inl e
      | Inr cells \<Rightarrow>
          (case process_cells cl (order cells) s of
             Inl e \<Rightarrow> Inl e
           | Inr (results_list, s1) \<Rightarrow>
               (case aggregate results_list of
                  Inl e \<Rightarrow> Inl e
                | Inr all_restaurants \<Rightarrow> Inr (all_restaurants, s1))))"

text \<open>
  Phase 2 runs one unit per item of the map. A unit writes its own restaurant and its own
  cache file only, so the units are run in the order of the items.
\<close>

fun enrich_restaurants_async ::
  "client \<Rightarrow> (publish_time \<Rightarrow> string) \<Rightarrow> restaurants \<Rightarrow> state
     \<Rightarrow> py_exn + (restaurants \<times> state)" where
  "enrich_restaurants_async cl fmt [] s = Inr ([], s)"
| "enrich_restaurants_async cl fmt ((place_id, restaurant) # rest) s =
     (case enrich_restaurant_async cl fmt place_id restaurant s of
        Inl e \<Rightarrow> Inl e
      | Inr ((restaurant1, from_cache, made_api_call), s1) \<Rightarrow>
          (case enrich_restaurants_async cl fmt rest s1 of
             Inl e \<Rightarrow> Inl e
           | Inr (rest1, s2) \<Rightarrow> Inr ((place_id, restaurant1) # rest1, s2)))"

text \<open>
  \<^verbatim>\<open>main_async\<close> without its console output, its credentials and the final snapshot file
  (which carries a timestamp): the entity map after both phases.
\<close>

definition main_async ::
  "client \<Rightarrow> (publish_time \<Rightarrow> string) \<Rightarrow> (GridCell list \<Rightarrow> GridCell list) \<Rightarrow> bounds \<Rightarrow> nat
     \<Rightarrow> polygon \<Rightarrow> state \<Rightarrow> py_exn + (restaurants \<times> state)" where
  "main_async cl fmt order b grid_size polygon s =
     (case scrape_grid_cells_async cl order b grid_size polygon s of
        Inl e \<Rightarrow> Inl e
      | Inr (restaurants, s1) \<Rightarrow> enrich_restaurants_async cl fmt restaurants s1)"

section \<open>Inputs named by the properties\<close>

text \<open>
  The square cell of 0.01 degrees a side centred on the equator, with its western edge
  at longitude \<open>lon\<close>.
\<close>

definition equator_cell :: "real \<Rightarrow> GridCell" where
  "equator_cell lon =
     \<lparr> lat_low = - (1 / 200), lon_low = lon, lat_high = 1 / 200, lon_high = lon + 1 / 100 \<rparr>"

text \<open>
  The boundary polygon that is exactly the bounding box, the unit box, and a thin
  diagonal band (between the lines \<open>y = x + 0.2\<close> and \<open>y = x + 0.21\<close>, for \<open>x\<close> from 0.1
  to 0.7) that lies inside the unit box away from its centre and its corners.
\<close>

definition box_polygon :: "bounds \<Rightarrow> polygon" where
  "box_polygon b = rectangle_polygon (b_lon_low b) (b_lat_low b) (b_lon_high b) (b_lat_high b)"

definition unit_box :: bounds where
  "unit_box = \<lparr> b_lat_low = 0, b_lat_high = 1, b_lon_low = 0, b_lon_high = 1 \<rparr>"

definition sliver_polygon :: polygon where
  "sliver_polygon =
     \<lparr> poly_interior =
         {(x, y). 1 / 10 < x \<and> x < 7 / 10 \<and> x + 1 / 5 < y \<and> y < x + 21 / 100},
       poly_boundary =
         {(x, y). 1 / 10 \<le> x \<and> x \<le> 7 / 10 \<and> x + 1 / 5 \<le> y \<and> y \<le> x + 21 / 100 \<and>
                  (x = 1 / 10 \<or> x = 7 / 10 \<or> y = x + 1 / 5 \<or> y = x + 21 / 100)} \<rparr>"

text \<open>
  An occurrence of the id \<open>pid\<close> that the aggregation loop inserts: a dict whose
  \<^verbatim>\<open>'id'\<close> is \<open>pid\<close> and whose \<^verbatim>\<open>websiteUri\<close> (or \<^verbatim>\<open>website_uri\<close>) is truthy. A result
  is well formed when it is a dict whose id, if any, can be a dict key.
\<close>

fun carries :: "json \<Rightarrow> json \<Rightarrow> bool" where
  "carries pid (JObj d) = (map_of d ''id'' = Some pid \<and> has_website d)"
| "carries pid _ = False"

fun well_formed_result :: "json \<Rightarrow> bool" where
  "well_formed_result (JObj d) =
     (case map_of d ''id'' of Some rid \<Rightarrow> hashable rid | None \<Rightarrow> True)"
| "well_formed_result _ = False"

text \<open>Entities: one place seen with two ratings, another place, and the first without a website.\<close>

definition entity_a1 :: pydict where
  "entity_a1 =
     [(''id'', JStr ''a''), (''websiteUri'', JStr ''http://a.example''), (''rating'', JNum 4)]"

definition entity_a2 :: pydict where
  "entity_a2 =
     [(''id'', JStr ''a''), (''websiteUri'', JStr ''http://a.example''), (''rating'', JNum 5)]"

definition entity_b :: pydict where
  "entity_b = [(''id'', JStr ''b''), (''websiteUri'', JStr ''http://b.example'')]"

definition bare_a1 :: pydict where
  "bare_a1 = [(''id'', JStr ''a''), (''websiteUri'', JStr []), (''rating'', JNum 4)]"

definition bare_a2 :: pydict where
  "bare_a2 = [(''id'', JStr ''a''), (''websiteUri'', JStr []), (''rating'', JNum 5)]"

text \<open>
  The instant of a publish time, as line 484 of the source computes it from a
  \<^verbatim>\<open>Timestamp\<close>: \<^verbatim>\<open>seconds + nanos / 1e9\<close>. Three reviews: two published within the
  same second, 0.1 s and 0.9 s into it, and one published in the next second.
\<close>

fun instant :: "publish_time \<Rightarrow> real" where
  "instant (Timestamp secs nanos) = real_of_int secs + real_of_int nanos / 10 ^ 9"
| "instant (OtherTime _) = 0"

definition review_early :: Review where
  "review_early = \<lparr> r_rating = 5, r_text = None, author_attribution = None,
                     r_publish_time = Some (Timestamp 1700000000 100000000) \<rparr>"

definition review_late :: Review where
  "review_late = \<lparr> r_rating = 1, r_text = None, author_attribution = None,
                    r_publish_time = Some (Timestamp 1700000000 900000000) \<rparr>"

definition review_next :: Review where
  "review_next = \<lparr> r_rating = 3, r_text = None, author_attribution = None,
                    r_publish_time = Some (Timestamp 1700000001 0) \<rparr>"

text \<open>The keys the detail fetch may set.\<close>

definition detail_keys :: "string set" where
  "detail_keys = {''reviews'', ''generativeSummary'', ''reviewSummary''}"

text \<open>
  A state with nothing cached; a client whose every call raises with the given message;
  a client that knows one place, with a website and two reviews, and returns it to every
  request; a rendering of publish times.
\<close>

definition empty_state :: state where
  "empty_state = \<lparr> grid_cache = Map.empty, details_cache = Map.empty, events = [] \<rparr>"

definition failing_client :: "string \<Rightarrow> client" where
  "failing_client error_str =
     \<lparr> search_nearby = (\<lambda>evs request. Inl error_str),
       get_place = (\<lambda>evs place_id. Inl error_str) \<rparr>"

definition demo_place :: Place where
  "demo_place =
     \<lparr> p_id = ''a'', display_name = None, formatted_address = ''1 Main St'', location = None,
       types = [''restaurant''], rating = 4, user_rating_count = 12, price_level = None,
       website_uri = ''http://a.example'', national_phone_number = [], business_status = None,
       review_summary = None, reviews = [review_early, review_next],
       generative_summary = None \<rparr>"

definition demo_client :: client where
  "demo_client =
     \<lparr> search_nearby = (\<lambda>evs request. Inr \<lparr> places = [demo_place], next_page_token = [] \<rparr>),
       get_place = (\<lambda>evs place_id. Inr demo_place) \<rparr>"

definition demo_fmt :: "publish_time \<Rightarrow> string" where
  "demo_fmt t = (case t of Timestamp secs nanos \<Rightarrow> ''T'' | OtherTime s \<Rightarrow> s)"


definition demo_reviews :: json where
  "demo_reviews =
     JArr [JObj [(''rating'', JNum 3), (''publishTime'', JStr ''T'')],
           JObj [(''rating'', JNum 5), (''publishTime'', JStr ''T'')]]"




text \<open>
  A state whose one grid cache file, for the cell of the unit box at resolution 1, holds
  bytes that are not valid UTF-8: reading it raises \<^verbatim>\<open>UnicodeDecodeError\<close>.
\<close>

definition garbled_state :: state where
  "garbled_state =
     \<lparr> grid_cache = [grid_cell unit_box 1 0 0 \<mapsto> Corrupt UnicodeDecodeError],
       details_cache = Map.empty, events = [] \<rparr>"



text \<open>A review whose publish time is an object without \<^verbatim>\<open>seconds\<close>, known by its \<^verbatim>\<open>str\<close>.\<close>

definition review_plain :: "string \<Rightarrow> Review" where
  "review_plain t = \<lparr> r_rating = 5, r_text = None, author_attribution = None,
                       r_publish_time = Some (OtherTime t) \<rparr>"

section \<open>Properties of the caches\<close>

text \<open>
  Claim C2, as amended: get after put through either cache directory gives the tri-state
  record back. A non-empty result list of a cell comes back as Present with exactly that
  list and the empty list as Empty; for a place, a non-empty details dict other than the
  reserved marker \<^verbatim>\<open>{"_empty": True}\<close> comes back as Present with exactly that dict, and
  the marker written for \<^verbatim>\<open>None\<close> comes back as Empty. In no case is the record Absent.
\<close>

theorem cache_get_after_put:
  "(results \<noteq> [] \<longrightarrow>
      map_sum id cache_record (load_grid_cache (save_grid_cache cell results gdir) cell)
        = Inr (Present results))
   \<and> map_sum id cache_record (load_grid_cache (save_grid_cache cell [] gdir) cell) = Inr Empty
   \<and> (d \<noteq> [] \<and> \<not> is_empty_marker (JObj d) \<longrightarrow>
      map_sum id cache_record
        (load_details_cache (save_details_cache place_id (Some d) ddir) place_id)
        = Inr (Present d))
   \<and> map_sum id cache_record
        (load_details_cache (save_details_cache place_id None ddir) place_id)
        = Inr Empty"
  by (cases results; cases d)
     (simp_all add: load_grid_cache_def save_grid_cache_def load_details_cache_def
        save_details_cache_def cache_record_def empty_marker_def)

theorem cache_get_after_put_witness:
  "[JObj [(''id'', JStr ''a'')]] \<noteq> []
   \<and> map_sum id cache_record
        (load_grid_cache
           (save_grid_cache \<lparr>lat_low = 0, lon_low = 0, lat_high = 1, lon_high = 1\<rparr>
              [JObj [(''id'', JStr ''a'')]] Map.empty)
           \<lparr>lat_low = 0, lon_low = 0, lat_high = 1, lon_high = 1\<rparr>)
        = Inr (Present [JObj [(''id'', JStr ''a'')]])
   \<and> [(''reviews'', JArr [])] \<noteq> [] \<and> \<not> is_empty_marker (JObj [(''reviews'', JArr [])])
   \<and> map_sum id cache_record
        (load_details_cache
           (save_details_cache (JStr ''a'') (Some [(''reviews'', JArr [])]) Map.empty)
           (JStr ''a''))
        = Inr (Present [(''reviews'', JArr [])])"
  using cache_get_after_put [of "[JObj [(''id'', JStr ''a'')]]"
      "\<lparr>lat_low = 0, lon_low = 0, lat_high = 1, lon_high = 1\<rparr>" Map.empty
      "[(''reviews'', JArr [])]" "JStr ''a''" Map.empty]
  by simp

text \<open>
  The claim as stated fails at the payload that equals the marker: it is a non-empty
  dict, and get after put reads it as Empty, not as Present with that payload.
\<close>

theorem marker_payload_reads_empty:
  "[(''_empty'', JBool True)] \<noteq> []
   \<and> map_sum id cache_record
        (load_details_cache
           (save_details_cache (JStr ''a'') (Some [(''_empty'', JBool True)]) Map.empty)
           (JStr ''a''))
       = Inr Empty
   \<and> map_sum id cache_record
        (load_details_cache
           (save_details_cache (JStr ''a'') (Some [(''_empty'', JBool True)]) Map.empty)
           (JStr ''a''))
       \<noteq> Inr (Present [(''_empty'', JBool True)])"
  by (simp add: load_details_cache_def save_details_cache_def cache_record_def)

text \<open>
  What the loaders do for the two classes of exception they catch: a cache file whose
  reading raises \<^verbatim>\<open>json.JSONDecodeError\<close> or \<^verbatim>\<open>IOError\<close> makes either loader return
  \<^verbatim>\<open>None\<close>, and the unit that asked then fetches again and returns normally.
\<close>

lemma corrupt_record_is_absent:
  assumes "e = JSONDecodeError \<or> e = IOError"
  shows "(gdir cell = Some (Corrupt e) \<longrightarrow> load_grid_cache gdir cell = Inr None)
       \<and> (ddir place_id = Some (Corrupt e) \<longrightarrow> load_details_cache ddir place_id = Inr None)
       \<and> (grid_cache s cell = Some (Corrupt e) \<longrightarrow>
            (\<exists>results s1. process_cell_async cl cell s = Inr ((results, False, True), s1)))
       \<and> (details_cache s place_id = Some (Corrupt e) \<longrightarrow>
            (\<exists>r s1. enrich_restaurant_async cl fmt place_id restaurant s
                       = Inr ((r, False, True), s1)))"
  using assms
  by (auto simp: load_grid_cache_def load_details_cache_def process_cell_async_def
        enrich_restaurant_async_def Let_def split: prod.splits option.splits)

section \<open>Properties of the search radius\<close>

lemma equator_diagonal: "cell_diagonal_meters (equator_cell lon) = sqrt 2464200"
  by (simp add: cell_diagonal_meters_def equator_cell_def radians_def power2_eq_square)

lemma sqrt_bounds: "1569 < sqrt 2464200" "sqrt 2464200 < 1570"
  by (rule real_less_rsqrt, simp) (rule real_less_lsqrt, simp_all)

lemma equator_radius: "radius_meters (equator_cell lon) = 1669"
proof -
  have "\<lfloor>sqrt 2464200 + 100\<rfloor> = 1669"
    using sqrt_bounds by (simp add: floor_eq_iff)
  moreover have "0 \<le> sqrt 2464200 + 100" by simp
  ultimately show ?thesis
    by (simp add: radius_meters_def equator_cell_def radians_def py_int_def Let_def
          power2_eq_square del: real_sqrt_ge_0_iff)
qed

text \<open>
  Claim C6, as amended: for a square cell spanning 0.01 degrees of latitude and of
  longitude, centred on the equator, the search radius is 1669 m: the cell's whole
  diagonal in meters (about 1569.8 m) plus the 100 m buffer, truncated. It is within 10%
  of the whole diagonal.
\<close>

theorem equator_cell_radius:
  "radius_meters (equator_cell lon) = 1669
   \<and> radius_meters (equator_cell lon) = \<lfloor>cell_diagonal_meters (equator_cell lon) + 100\<rfloor>
   \<and> \<bar>real_of_int (radius_meters (equator_cell lon)) - cell_diagonal_meters (equator_cell lon)\<bar>
       \<le> cell_diagonal_meters (equator_cell lon) / 10"
proof -
  have "\<lfloor>sqrt 2464200 + 100\<rfloor> = 1669"
    using sqrt_bounds by (simp add: floor_eq_iff)
  then show ?thesis
    using sqrt_bounds by (simp add: equator_radius equator_diagonal abs_le_iff)
qed

text \<open>
  The claim as stated fails there: the radius is not within 10% of half the diagonal
  (about 784.9 m), with or without the buffer added to the half.
\<close>

theorem equator_cell_radius_not_half_diagonal:
  "\<not> \<bar>real_of_int (radius_meters (equator_cell 0)) - cell_diagonal_meters (equator_cell 0) / 2\<bar>
       \<le> (cell_diagonal_meters (equator_cell 0) / 2) / 10
   \<and> \<not> \<bar>real_of_int (radius_meters (equator_cell 0))
          - (cell_diagonal_meters (equator_cell 0) / 2 + 100)\<bar>
       \<le> (cell_diagonal_meters (equator_cell 0) / 2 + 100) / 10"
  using sqrt_bounds by (simp add: equator_radius equator_diagonal abs_le_iff)

section \<open>Properties of the grid\<close>

lemma rectangle_region:
  "polygon_region (rectangle_polygon x0 y0 x1 y1)
     = {(x, y). x0 \<le> x \<and> x \<le> x1 \<and> y0 \<le> y \<and> y \<le> y1}"
  by (auto simp: polygon_region_def rectangle_polygon_def)

lemma cell_polygon_region: "polygon_region (cell_polygon cell) = cell_rectangle cell"
  by (simp add: cell_polygon_def rectangle_region cell_rectangle_def)

lemma intersecting_cell_overlaps:
  assumes "cell_rectangle cell \<inter> polygon_region poly \<noteq> {}"
  shows "cell_overlaps_manhattan poly cell"
proof -
  have "polygon_intersects (cell_polygon cell) poly"
    using assms cell_polygon_region [of cell]
    by (simp add: polygon_intersects_def polygon_region_def)
  then show ?thesis
    by (simp add: cell_overlaps_manhattan_def Let_def)
qed

lemma generated_cells:
  assumes "0 < n"
  shows "generate_grid_cells b n poly
           = Inr (filter (cell_overlaps_manhattan poly) (lattice_cells b n))"
proof -
  have "concat (map (\<lambda>j. let cell = f j in if P cell then [cell] else []) js)
          = filter P (map f js)" for f :: "nat \<Rightarrow> GridCell" and P js
    by (induction js) (simp_all add: Let_def)
  then show ?thesis
    using assms
    by (simp add: generate_grid_cells_def lattice_cells_def filter_concat map_concat comp_def)
qed

lemma lattice_member:
  "c \<in> set (lattice_cells b n) \<longleftrightarrow> (\<exists>i<n. \<exists>j<n. c = grid_cell b n i j)"
proof
  assume "c \<in> set (lattice_cells b n)"
  then obtain i where i: "i < n" "c \<in> set (map (\<lambda>j. grid_cell b n i j) [0..<n])"
    by (auto simp: lattice_cells_def)
  then obtain j where "j < n" "c = grid_cell b n i j" by auto
  with i show "\<exists>i<n. \<exists>j<n. c = grid_cell b n i j" by blast
next
  assume "\<exists>i<n. \<exists>j<n. c = grid_cell b n i j"
  then obtain i j where ij: "i < n" "j < n" "c = grid_cell b n i j" by blast
  then show "c \<in> set (lattice_cells b n)"
    by (auto simp: lattice_cells_def intro!: bexI [where x = i] image_eqI [where x = j])
qed

lemma length_lattice: "length (lattice_cells b n) = n * n"
  by (simp add: lattice_cells_def length_concat comp_def sum_list_triv)

lemma step_inside:
  fixes lo hi :: real
  assumes "lo < hi" "i < n"
  shows "lo < (lo + real i * ((hi - lo) / real n) + (lo + real (i + 1) * ((hi - lo) / real n))) / 2"
    and "(lo + real i * ((hi - lo) / real n) + (lo + real (i + 1) * ((hi - lo) / real n))) / 2 < hi"
proof -
  define s where "s = (hi - lo) / real n"
  have n: "0 < real n" using assms by simp
  have s: "0 < s" using assms n by (simp add: s_def)
  have sn: "real n * s = hi - lo" using n by (simp add: s_def)
  have c: "(lo + real i * s + (lo + real (i + 1) * s)) / 2 = lo + (real i + 1 / 2) * s"
    by (simp add: algebra_simps)
  have "0 < (real i + 1 / 2) * s" using s by simp
  then have "lo < (lo + real i * s + (lo + real (i + 1) * s)) / 2"
    by (simp only: c less_add_same_cancel1)
  then show "lo < (lo + real i * ((hi - lo) / real n) + (lo + real (i + 1) * ((hi - lo) / real n))) / 2"
    unfolding s_def .
  have "real i + 1 / 2 < real n" using assms by simp
  then have "(real i + 1 / 2) * s < real n * s" using s by (rule mult_strict_right_mono)
  then have "lo + (real i + 1 / 2) * s < hi" by (simp only: sn)
  then have "(lo + real i * s + (lo + real (i + 1) * s)) / 2 < hi"
    by (simp only: c)
  then show "(lo + real i * ((hi - lo) / real n) + (lo + real (i + 1) * ((hi - lo) / real n))) / 2 < hi"
    unfolding s_def .
qed

lemma box_cell_overlaps:
  assumes "b_lat_low b < b_lat_high b" "b_lon_low b < b_lon_high b" "i < n" "j < n"
  shows "cell_overlaps_manhattan (box_polygon b) (grid_cell b n i j)"
proof -
  have "point_in_manhattan (box_polygon b)
          ((lat_low (grid_cell b n i j) + lat_high (grid_cell b n i j)) / 2)
          ((lon_low (grid_cell b n i j) + lon_high (grid_cell b n i j)) / 2)"
    using step_inside [OF assms(1) assms(3)] step_inside [OF assms(2) assms(4)]
    by (simp add: point_in_manhattan_def polygon_contains_def box_polygon_def
          rectangle_polygon_def grid_cell_def Let_def)
  then show ?thesis
    by (simp add: cell_overlaps_manhattan_def Let_def)
qed

lemma grid_cell_inj:
  assumes "b_lat_low b < b_lat_high b" "b_lon_low b < b_lon_high b" "0 < n"
      and "grid_cell b n i j = grid_cell b n i' j'"
  shows "i = i' \<and> j = j'"
proof -
  have n: "real n \<noteq> 0" using assms(3) by simp
  have "lat_low (grid_cell b n i j) = lat_low (grid_cell b n i' j')"
       "lon_low (grid_cell b n i j) = lon_low (grid_cell b n i' j')"
    using assms(4) by simp_all
  then show ?thesis
    using assms(1,2) n by (simp add: grid_cell_def Let_def)
qed

lemma lattice_product:
  "lattice_cells b n = map (\<lambda>(i, j). grid_cell b n i j) (List.product [0..<n] [0..<n])"
proof -
  have "concat (map (\<lambda>i. map (f i) ys) xs) = map (\<lambda>(i, j). f i j) (List.product xs ys)"
    for f :: "nat \<Rightarrow> nat \<Rightarrow> GridCell" and xs ys
    by (induction xs) (simp_all add: comp_def)
  then show ?thesis by (simp add: lattice_cells_def)
qed

lemma distinct_lattice:
  assumes "b_lat_low b < b_lat_high b" "b_lon_low b < b_lon_high b" "0 < n"
  shows "distinct (lattice_cells b n)"
proof -
  have "inj_on (\<lambda>(i, j). grid_cell b n i j) (set (List.product [0..<n] [0..<n]))"
    using grid_cell_inj [OF assms] by (auto simp: inj_on_def)
  then show ?thesis
    by (simp add: lattice_product distinct_map distinct_product)
qed

text \<open>
  Claim C4: when the boundary polygon is exactly the bounding box (a box with
  \<open>lat_low < lat_high\<close> and \<open>lon_low < lon_high\<close>), grid generation at a resolution
  \<open>n > 0\<close> returns the whole lattice: \<open>n * n\<close> cells, all different, none excluded.
\<close>

theorem box_boundary_keeps_every_cell:
  assumes "b_lat_low b < b_lat_high b" "b_lon_low b < b_lon_high b" "0 < n"
  shows "generate_grid_cells b n (box_polygon b) = Inr (lattice_cells b n)
       \<and> length (lattice_cells b n) = n * n
       \<and> distinct (lattice_cells b n)"
proof -
  have "filter (cell_overlaps_manhattan (box_polygon b)) (lattice_cells b n) = lattice_cells b n"
    using box_cell_overlaps [OF assms(1) assms(2)]
    by (auto simp: filter_id_conv lattice_member)
  then show ?thesis
    using generated_cells [OF assms(3)] distinct_lattice [OF assms]
    by (simp add: length_lattice)
qed

theorem box_boundary_keeps_every_cell_witness:
  "b_lat_low unit_box < b_lat_high unit_box \<and> b_lon_low unit_box < b_lon_high unit_box
   \<and> (0::nat) < 2
   \<and> generate_grid_cells unit_box 2 (box_polygon unit_box)
     = Inr [\<lparr>lat_low = 0, lon_low = 0, lat_high = 1 / 2, lon_high = 1 / 2\<rparr>,
            \<lparr>lat_low = 0, lon_low = 1 / 2, lat_high = 1 / 2, lon_high = 1\<rparr>,
            \<lparr>lat_low = 1 / 2, lon_low = 0, lat_high = 1, lon_high = 1 / 2\<rparr>,
            \<lparr>lat_low = 1 / 2, lon_low = 1 / 2, lat_high = 1, lon_high = 1\<rparr>]"
  using box_boundary_keeps_every_cell [of unit_box 2]
  by (simp add: unit_box_def lattice_cells_def grid_cell_def upt_rec [of _ 2]
        upt_rec [of _ "Suc (Suc 0)"] numeral_2_eq_2)

text \<open>
  Claim C5: every cell of the lattice whose rectangle shares a point with the boundary
  polygon is in the generated list, whether or not its centre or a corner lies in or on
  the polygon.
\<close>

theorem intersecting_cell_is_generated:
  assumes "i < n" "j < n"
      and "cell_rectangle (grid_cell b n i j) \<inter> polygon_region poly \<noteq> {}"
  shows "\<exists>cells. generate_grid_cells b n poly = Inr cells \<and> grid_cell b n i j \<in> set cells"
proof -
  have "0 < n" using assms(1) by simp
  moreover have "grid_cell b n i j \<in> set (lattice_cells b n)"
    using assms(1,2) lattice_member by blast
  ultimately show ?thesis
    using intersecting_cell_overlaps [OF assms(3)] by (simp add: generated_cells)
qed

text \<open>
  The thin-sliver case: the band crosses the one cell of the unit box at resolution 1,
  neither the centre nor a corner of the cell is in or on it, and the cell is generated.
\<close>

theorem intersecting_cell_is_generated_witness:
  "cell_rectangle (grid_cell unit_box 1 0 0) \<inter> polygon_region sliver_polygon \<noteq> {}
   \<and> \<not> point_in_manhattan sliver_polygon (1 / 2) (1 / 2)
   \<and> \<not> point_in_manhattan sliver_polygon 0 0
   \<and> \<not> point_in_manhattan sliver_polygon 0 1
   \<and> \<not> point_in_manhattan sliver_polygon 1 0
   \<and> \<not> point_in_manhattan sliver_polygon 1 1
   \<and> grid_cell unit_box 1 0 0 = \<lparr>lat_low = 0, lon_low = 0, lat_high = 1, lon_high = 1\<rparr>
   \<and> (\<exists>cells. generate_grid_cells unit_box 1 sliver_polygon = Inr cells
         \<and> grid_cell unit_box 1 0 0 \<in> set cells)"
proof -
  have "(3 / 10, 101 / 200)
          \<in> cell_rectangle (grid_cell unit_box 1 0 0) \<inter> polygon_region sliver_polygon"
    by (simp add: cell_rectangle_def grid_cell_def unit_box_def polygon_region_def
          sliver_polygon_def)
  then have h: "cell_rectangle (grid_cell unit_box 1 0 0) \<inter> polygon_region sliver_polygon \<noteq> {}"
    by blast
  show ?thesis
    using h intersecting_cell_is_generated [of 0 1 0 unit_box sliver_polygon]
    by (simp add: point_in_manhattan_def polygon_contains_def polygon_touches_def
          sliver_polygon_def grid_cell_def unit_box_def)
qed

section \<open>Properties of the aggregation\<close>

lemma insert_result_lookup:
  assumes "insert_result r m0 = Inr m"
  shows "map_of m pid = (if carries pid r then (case r of JObj d \<Rightarrow> Some d | _ \<Rightarrow> None) else map_of m0 pid)"
  using assms
  by (cases r) (auto simp: update_conv split: option.splits if_splits)

lemma insert_result_distinct:
  assumes "insert_result r m0 = Inr m" "distinct (map fst m0)"
  shows "distinct (map fst m)"
  using assms
  by (cases r) (auto simp: distinct_update split: option.splits if_splits)

lemma insert_results_append:
  "insert_results (xs @ ys) m0
     = (case insert_results xs m0 of Inl e \<Rightarrow> Inl e | Inr m1 \<Rightarrow> insert_results ys m1)"
  by (induction xs arbitrary: m0) (simp_all split: sum.splits)

lemma insert_results_distinct:
  "insert_results rs m0 = Inr m \<Longrightarrow> distinct (map fst m0) \<Longrightarrow> distinct (map fst m)"
proof (induction rs arbitrary: m0)
  case Nil
  then show ?case by simp
next
  case (Cons r rs)
  then show ?case
    by (auto split: sum.splits dest: insert_result_distinct)
qed

lemma insert_results_untouched:
  "insert_results rs m0 = Inr m \<Longrightarrow> \<forall>r\<in>set rs. \<not> carries pid r \<Longrightarrow> map_of m pid = map_of m0 pid"
proof (induction rs arbitrary: m0)
  case Nil
  then show ?case by simp
next
  case (Cons r rs)
  from Cons.prems(1) obtain m1 where m1: "insert_result r m0 = Inr m1" "insert_results rs m1 = Inr m"
    by (auto split: sum.splits)
  have "map_of m pid = map_of m1 pid" using Cons.IH [OF m1(2)] Cons.prems(2) by simp
  also have "\<dots> = map_of m0 pid" using insert_result_lookup [OF m1(1), of pid] Cons.prems(2) by simp
  finally show ?case .
qed

lemma insert_results_last:
  assumes "insert_results (xs @ JObj d # ys) m0 = Inr m"
      and "carries pid (JObj d)" "\<forall>r\<in>set ys. \<not> carries pid r"
  shows "map_of m pid = Some d"
proof -
  from assms(1) obtain m1 m2 where
    m: "insert_results xs m0 = Inr m1" "insert_result (JObj d) m1 = Inr m2"
       "insert_results ys m2 = Inr m"
    by (auto simp: insert_results_append split: sum.splits)
  have "map_of m pid = map_of m2 pid" using insert_results_untouched [OF m(3) assms(3)] .
  also have "\<dots> = Some d" using insert_result_lookup [OF m(2), of pid] assms(2) by simp
  finally show ?thesis .
qed

lemma insert_results_succeeds:
  "list_all well_formed_result rs \<Longrightarrow> \<exists>m. insert_results rs m0 = Inr m"
proof (induction rs arbitrary: m0)
  case Nil
  then show ?case by simp
next
  case (Cons r rs)
  from Cons.prems have "\<exists>m1. insert_result r m0 = Inr m1"
    by (cases r) (auto split: option.splits)
  then obtain m1 where "insert_result r m0 = Inr m1" ..
  moreover have "\<exists>m. insert_results rs m1 = Inr m" using Cons by simp
  ultimately show ?case by simp
qed

text \<open>
  Claim C8, as amended: the aggregation of well-formed results succeeds, and the map it
  returns has one entry per id. An id maps to its last occurrence, in the iteration over
  the cell result lists, among the occurrences that carry a truthy \<^verbatim>\<open>websiteUri\<close> (or
  \<^verbatim>\<open>website_uri\<close>): last writer wins, and an id with a single such occurrence maps to it.
  An id with no such occurrence has no entry.
\<close>

theorem aggregate_last_writer_wins:
  "(list_all well_formed_result (concat results_list) \<longrightarrow> (\<exists>m. aggregate results_list = Inr m))
   \<and> (aggregate results_list = Inr m \<longrightarrow>
        distinct (map fst m)
        \<and> (\<forall>xs d ys. concat results_list = xs @ JObj d # ys \<and> carries pid (JObj d)
               \<and> (\<forall>r\<in>set ys. \<not> carries pid r) \<longrightarrow> map_of m pid = Some d)
        \<and> ((\<forall>r\<in>set (concat results_list). \<not> carries pid r) \<longrightarrow> map_of m pid = None))"
proof (intro conjI impI allI)
  assume "list_all well_formed_result (concat results_list)"
  then show "\<exists>m. aggregate results_list = Inr m"
    unfolding aggregate_def by (rule insert_results_succeeds)
next
  assume "aggregate results_list = Inr m"
  then show "distinct (map fst m)"
    unfolding aggregate_def by (rule insert_results_distinct) simp
next
  fix xs d ys
  assume a: "aggregate results_list = Inr m"
    and b: "concat results_list = xs @ JObj d # ys \<and> carries pid (JObj d)
               \<and> (\<forall>r\<in>set ys. \<not> carries pid r)"
  from a b have "insert_results (xs @ JObj d # ys) [] = Inr m" by (simp add: aggregate_def)
  moreover from b have "carries pid (JObj d)" "\<forall>r\<in>set ys. \<not> carries pid r" by blast+
  ultimately show "map_of m pid = Some d" by (rule insert_results_last)
next
  assume a: "aggregate results_list = Inr m"
    and b: "\<forall>r\<in>set (concat results_list). \<not> carries pid r"
  from a have "insert_results (concat results_list) [] = Inr m" by (simp add: aggregate_def)
  then have "map_of m pid = map_of [] pid" using b by (rule insert_results_untouched)
  then show "map_of m pid = None" by simp
qed

theorem aggregate_last_writer_wins_witness:
  "aggregate [[JObj entity_a1, JObj entity_b], [JObj entity_a2]]
     = Inr [(JStr ''a'', entity_a2), (JStr ''b'', entity_b)]
   \<and> concat [[JObj entity_a1, JObj entity_b], [JObj entity_a2]]
       = [JObj entity_a1, JObj entity_b] @ JObj entity_a2 # []
   \<and> carries (JStr ''a'') (JObj entity_a2)
   \<and> map_of [(JStr ''a'', entity_a2), (JStr ''b'', entity_b)] (JStr ''a'') = Some entity_a2"
  using aggregate_last_writer_wins [of "[[JObj entity_a1, JObj entity_b], [JObj entity_a2]]"
      "[(JStr ''a'', entity_a2), (JStr ''b'', entity_b)]" "JStr ''a''"]
  by (simp add: aggregate_def entity_a1_def entity_a2_def entity_b_def has_website_def
        dict_get_def)

text \<open>
  The claim as stated fails for entities without a website: an id that occurs in the
  lists of two cells, or in one list only, with an empty \<^verbatim>\<open>websiteUri\<close> has no entry in
  the aggregate map.
\<close>

theorem aggregate_drops_entities_without_website:
  "aggregate [[JObj bare_a1], [JObj bare_a2]] = Inr []
   \<and> aggregate [[JObj bare_a1]] = Inr []"
  by (simp add: aggregate_def bare_a1_def bare_a2_def has_website_def dict_get_def)

section \<open>Properties of the kept reviews\<close>

lemma py_sorted_reverse_props:
  "length (py_sorted_reverse f xs) = length xs"
  "set (py_sorted_reverse f xs) = set xs"
  "sorted (rev (map f (py_sorted_reverse f xs)))"
  by (simp_all add: py_sorted_reverse_def rev_map)

lemma kept_length: "length (kept_reviews rs) = min (length rs) 10"
  by (simp add: kept_reviews_def MAX_REVIEWS_def py_sorted_reverse_props(1) min.commute)

lemma sorted_rev_take_drop:
  assumes "sorted (rev (map f zs))" "x \<in> set (take k zs)" "y \<in> set (drop k zs)"
  shows "f y \<le> (f x :: int)"
proof -
  have "zs = take k zs @ drop k zs" by simp
  then have "sorted (rev (map f (drop k zs)) @ rev (map f (take k zs)))"
    using assms(1) by (metis map_append rev_append)
  then show ?thesis
    using assms(2,3) by (auto simp: sorted_append)
qed

lemma kept_most_recent:
  assumes "x \<in> set (kept_reviews rs)" "y \<in> set rs" "y \<notin> set (kept_reviews rs)"
  shows "get_publish_time y \<le> get_publish_time x"
proof -
  let ?zs = "py_sorted_reverse get_publish_time rs"
  have "y \<in> set ?zs" using assms(2) by (simp add: py_sorted_reverse_props(2))
  then have "y \<in> set (take MAX_REVIEWS ?zs) \<union> set (drop MAX_REVIEWS ?zs)"
    by (metis append_take_drop_id set_append)
  then have "y \<in> set (drop MAX_REVIEWS ?zs)" using assms(3) by (simp add: kept_reviews_def)
  then show ?thesis
    using sorted_rev_take_drop [OF py_sorted_reverse_props(3)] assms(1)
    by (simp add: kept_reviews_def)
qed

lemma kept_sorted: "sorted (rev (map get_publish_time (kept_reviews rs)))"
proof -
  have "sorted (rev (map get_publish_time (py_sorted_reverse get_publish_time rs)))"
    by (rule py_sorted_reverse_props)
  then have "sorted (rev (map get_publish_time (take MAX_REVIEWS (py_sorted_reverse get_publish_time rs))
       @ map get_publish_time (drop MAX_REVIEWS (py_sorted_reverse get_publish_time rs))))"
    by (metis append_take_drop_id map_append)
  then show ?thesis by (simp add: kept_reviews_def sorted_append)
qed

text \<open>
  Claim C7 at a failing input: a detail response with two reviews published within the
  same second, the earlier one first. Their publish times differ, the sort key (whole
  seconds) does not, and the stable sort leaves them as they came: the earlier review is
  returned before the later one, not in descending order of publish time.
\<close>

theorem reviews_of_one_second_keep_response_order:
  "kept_reviews [review_early, review_late] = [review_early, review_late]
   \<and> r_publish_time review_early = Some (Timestamp 1700000000 100000000)
   \<and> r_publish_time review_late = Some (Timestamp 1700000000 900000000)
   \<and> instant (Timestamp 1700000000 100000000) < instant (Timestamp 1700000000 900000000)"
  by (simp add: kept_reviews_def py_sorted_reverse_def MAX_REVIEWS_def get_publish_time_def
        review_early_def review_late_def)

text \<open>
  What holds of the kept reviews for every response: they are \<open>min n 10\<close> of the \<open>n\<close>
  reviews, in descending order of the sort key (the whole seconds of a \<^verbatim>\<open>Timestamp\<close>,
  0 for anything else), and no review left out has a greater key than a review kept.
\<close>

theorem kept_reviews_by_seconds:
  "length (kept_reviews rs) = min (length rs) 10
   \<and> set (kept_reviews rs) \<subseteq> set rs
   \<and> sorted (rev (map get_publish_time (kept_reviews rs)))
   \<and> (\<forall>x\<in>set (kept_reviews rs). \<forall>y\<in>set rs.
         y \<notin> set (kept_reviews rs) \<longrightarrow> get_publish_time y \<le> get_publish_time x)"
proof -
  have "set (kept_reviews rs) \<subseteq> set rs"
    using set_take_subset [of MAX_REVIEWS "py_sorted_reverse get_publish_time rs"]
    by (simp add: kept_reviews_def py_sorted_reverse_props(2))
  then show ?thesis
    using kept_length kept_sorted kept_most_recent by blast
qed

theorem kept_reviews_by_seconds_witness:
  "kept_reviews [review_early, review_next] = [review_next, review_early]
   \<and> length (kept_reviews [review_early, review_next]) = min (length [review_early, review_next]) 10
   \<and> sorted (rev (map get_publish_time (kept_reviews [review_early, review_next])))"
  using kept_reviews_by_seconds [of "[review_early, review_next]"]
  by (simp add: kept_reviews_def py_sorted_reverse_def MAX_REVIEWS_def get_publish_time_def
        review_early_def review_next_def)

text \<open>
  When no review has a publish time with \<^verbatim>\<open>seconds\<close> (every sort key is 0), nothing is
  sorted: the kept reviews are the first \<^verbatim>\<open>MAX_REVIEWS\<close> of the response, in the order of
  the response.
\<close>

theorem reviews_without_seconds_keep_response_order:
  assumes "\<forall>r\<in>set rs. get_publish_time r = 0"
  shows "kept_reviews rs = take MAX_REVIEWS rs"
proof -
  have "sorted (map get_publish_time (rev rs))"
    using assms by (induction rs) (auto simp: sorted_append)
  then have "sort_key get_publish_time (rev rs) = rev rs"
    by (rule sort_key_id_if_sorted)
  then show ?thesis by (simp add: kept_reviews_def py_sorted_reverse_def)
qed

theorem reviews_without_seconds_keep_response_order_witness:
  "get_publish_time (review_plain ''2024-01-01'') = 0
   \<and> get_publish_time (review_plain ''2024-06-01'') = 0
   \<and> kept_reviews [review_plain ''2024-01-01'', review_plain ''2024-06-01'']
     = [review_plain ''2024-01-01'', review_plain ''2024-06-01'']"
  using reviews_without_seconds_keep_response_order
    [of "[review_plain ''2024-01-01'', review_plain ''2024-06-01'']"]
  by (simp add: get_publish_time_def review_plain_def MAX_REVIEWS_def)

section \<open>Properties of one unit of work\<close>

lemma details_keys: "fst ` set (details_of_response fmt response) \<subseteq> detail_keys"
  by (auto simp: details_of_response_def detail_keys_def split: option.splits if_splits)

lemma dict_update_frame:
  "k \<notin> fst ` set e \<Longrightarrow> map_of (dict_update d e) k = map_of d k"
  unfolding dict_update_def
proof (induction e arbitrary: d)
  case Nil
  then show ?case by simp
next
  case (Cons kv e)
  then show ?case by (cases kv) (simp add: update_conv)
qed

lemma marker_key: "is_empty_marker (JObj d) \<Longrightarrow> ''_empty'' \<in> fst ` set d"
proof (cases d)
  case Nil
  then show "is_empty_marker (JObj d) \<Longrightarrow> ?thesis" by simp
next
  case (Cons kv ds)
  then show "is_empty_marker (JObj d) \<Longrightarrow> ?thesis" by (cases ds; cases kv) auto
qed

lemma details_not_marker:
  "\<not> is_empty_marker (JObj (details_of_response fmt response))"
  using details_keys [of fmt response] marker_key [of "details_of_response fmt response"]
  by (auto simp: detail_keys_def)

lemma fetched_details:
  assumes "get_place_details_async cl fmt place_id evs = (Some d, evs1)"
  shows "d \<noteq> [] \<and> fst ` set d \<subseteq> detail_keys \<and> \<not> is_empty_marker (JObj d)"
  using assms details_keys details_not_marker
  by (auto simp: get_place_details_async_def Let_def split: sum.splits if_splits)

lemma load_saved_details:
  "load_details_cache (save_details_cache place_id details dir) place_id
     = Inr (Some (case details of
                    None \<Rightarrow> []
                  | Some d \<Rightarrow> if is_empty_marker (JObj d) then [] else d))"
  by (simp add: load_details_cache_def save_details_cache_def empty_marker_def
        split: option.splits)

lemma load_fetched_details:
  "load_details_cache
     (save_details_cache place_id (fst (get_place_details_async cl fmt place_id evs)) dir) place_id
   = Inr (Some (case fst (get_place_details_async cl fmt place_id evs) of None \<Rightarrow> [] | Some d \<Rightarrow> d))"
proof (cases "get_place_details_async cl fmt place_id evs")
  case (Pair details evs1)
  then show ?thesis
    using fetched_details [of cl fmt place_id evs _ evs1]
    by (cases details) (simp_all add: load_saved_details)
qed

lemma first_page_fails:
  assumes "search_nearby cl evs
             (FirstPage (cell_center cell) (radius_meters cell) tys 20) = Inl error_str"
  shows "search_by_type_async cl tys cell evs
           = ([], on_exception error_str
                    (evs @ [SearchNearby (FirstPage (cell_center cell) (radius_meters cell) tys 20)]))"
  using assms by (simp add: search_by_type_async_def max_pages_def)

text \<open>
  Claim C1, as amended: when the grid cache holds no record for a cell, the search unit
  writes whatever the search returned to the cache and reports an API call, so the record
  is afterwards Present or Empty and never Absent, and a later unit for the cell is
  answered from the cache without a request. In particular, when the first request
  raises, with a rate-limit signal or with any other error, the search returns the empty
  list and the cell's record becomes Empty.
\<close>

theorem failed_search_is_written_to_cache:
  assumes "load_grid_cache (grid_cache s) cell = Inr None"
  shows "(\<exists>results s1. process_cell_async cl cell s = Inr ((results, False, True), s1)
            \<and> results = fst (search_by_type_async cl [''restaurant''] cell (events s))
            \<and> load_grid_cache (grid_cache s1) cell = Inr (Some results)
            \<and> process_cell_async cl2 cell s1 = Inr ((results, True, False), s1))
       \<and> (search_nearby cl (events s)
             (FirstPage (cell_center cell) (radius_meters cell) [''restaurant''] 20)
              = Inl error_str \<longrightarrow>
            (\<exists>s1. process_cell_async cl cell s = Inr (([], False, True), s1)
               \<and> map_sum id cache_record (load_grid_cache (grid_cache s1) cell) = Inr Empty))"
proof (intro conjI impI)
  show "\<exists>results s1. process_cell_async cl cell s = Inr ((results, False, True), s1)
            \<and> results = fst (search_by_type_async cl [''restaurant''] cell (events s))
            \<and> load_grid_cache (grid_cache s1) cell = Inr (Some results)
            \<and> process_cell_async cl2 cell s1 = Inr ((results, True, False), s1)"
    using assms
    by (auto simp: process_cell_async_def load_grid_cache_def save_grid_cache_def
          split: prod.splits)
next
  assume f: "search_nearby cl (events s)
               (FirstPage (cell_center cell) (radius_meters cell) [''restaurant''] 20)
             = Inl error_str"
  show "\<exists>s1. process_cell_async cl cell s = Inr (([], False, True), s1)
               \<and> map_sum id cache_record (load_grid_cache (grid_cache s1) cell) = Inr Empty"
    using assms first_page_fails [OF f]
    by (auto simp: process_cell_async_def load_grid_cache_def save_grid_cache_def
          cache_record_def split: prod.splits)
qed

theorem failed_search_is_written_to_cache_witness:
  "load_grid_cache (grid_cache empty_state) (equator_cell 0) = Inr None
   \<and> search_nearby (failing_client ''429 RESOURCE_EXHAUSTED'') (events empty_state)
        (FirstPage (cell_center (equator_cell 0)) (radius_meters (equator_cell 0))
           [''restaurant''] 20)
      = Inl ''429 RESOURCE_EXHAUSTED''
   \<and> (\<exists>s1. process_cell_async (failing_client ''429 RESOURCE_EXHAUSTED'') (equator_cell 0)
               empty_state
             = Inr (([], False, True), s1)
           \<and> map_sum id cache_record (load_grid_cache (grid_cache s1) (equator_cell 0))
             = Inr Empty)"
  using failed_search_is_written_to_cache [where s = empty_state and cell = "equator_cell 0"
      and cl = "failing_client ''429 RESOURCE_EXHAUSTED''"
      and error_str = "''429 RESOURCE_EXHAUSTED''" and ?cl2.0 = demo_client]
  by (simp add: load_grid_cache_def empty_state_def failing_client_def)

text \<open>
  The claim as stated fails: after a search that raised on its first request, with a
  rate-limit signal or with another error, the cell's record is Empty, not Absent.
\<close>

theorem failed_search_leaves_empty_record:
  "load_grid_cache (grid_cache empty_state) (equator_cell 0) = Inr None
   \<and> is_rate_limit ''429 RESOURCE_EXHAUSTED''
   \<and> (case process_cell_async (failing_client ''429 RESOURCE_EXHAUSTED'') (equator_cell 0)
              empty_state of
         Inl e \<Rightarrow> Inl e
       | Inr (r, s1) \<Rightarrow>
           map_sum id cache_record (load_grid_cache (grid_cache s1) (equator_cell 0)))
      = Inr Empty
   \<and> \<not> is_rate_limit ''503 unavailable''
   \<and> (case process_cell_async (failing_client ''503 unavailable'') (equator_cell 0)
              empty_state of
         Inl e \<Rightarrow> Inl e
       | Inr (r, s1) \<Rightarrow>
           map_sum id cache_record (load_grid_cache (grid_cache s1) (equator_cell 0)))
      = Inr Empty"
  by (simp add: process_cell_async_def load_grid_cache_def save_grid_cache_def cache_record_def
        empty_state_def failing_client_def search_by_type_async_def max_pages_def
        is_rate_limit_def)

text \<open>
  Claim C10: when the details cache holds no record for the place, or holds the record
  that \<^verbatim>\<open>save_details_cache\<close> wrote for a result of \<^verbatim>\<open>get_place_details_async\<close>, the
  enrichment of a restaurant returns normally and leaves every key of the restaurant's
  dict other than \<^verbatim>\<open>reviews\<close>, \<^verbatim>\<open>generativeSummary\<close> and \<^verbatim>\<open>reviewSummary\<close> as it was:
  present with the same value, or absent.
\<close>

theorem enrichment_touches_detail_keys_only:
  assumes "details_cache s place_id = None
           \<or> (\<exists>cl0 fmt0 evs0 dir0.
                details_cache s
                  = save_details_cache place_id
                      (fst (get_place_details_async cl0 fmt0 place_id evs0)) dir0)"
  shows "\<exists>restaurant1 from_cache made_api_call s1.
           enrich_restaurant_async cl fmt place_id restaurant s
             = Inr ((restaurant1, from_cache, made_api_call), s1)
           \<and> (\<forall>k. k \<notin> detail_keys \<longrightarrow> map_of restaurant1 k = map_of restaurant k)"
  using assms
proof
  assume "details_cache s place_id = None"
  then have l: "load_details_cache (details_cache s) place_id = Inr None"
    by (simp add: load_details_cache_def)
  obtain details evs1 where g: "get_place_details_async cl fmt place_id (events s) = (details, evs1)"
    by (cases "get_place_details_async cl fmt place_id (events s)")
  show ?thesis
  proof (cases details)
    case None
    then show ?thesis using l g by (auto simp: enrich_restaurant_async_def)
  next
    case (Some d)
    then have "fst ` set d \<subseteq> detail_keys" "d \<noteq> []" using fetched_details g by blast+
    then have "\<forall>k. k \<notin> detail_keys \<longrightarrow> map_of (dict_update restaurant d) k = map_of restaurant k"
      using dict_update_frame [of _ d restaurant] by blast
    then show ?thesis
      using l g Some \<open>d \<noteq> []\<close> by (auto simp: enrich_restaurant_async_def)
  qed
next
  assume "\<exists>cl0 fmt0 evs0 dir0.
            details_cache s
              = save_details_cache place_id
                  (fst (get_place_details_async cl0 fmt0 place_id evs0)) dir0"
  then obtain cl0 fmt0 evs0 dir0 where
    c: "details_cache s
          = save_details_cache place_id (fst (get_place_details_async cl0 fmt0 place_id evs0)) dir0"
    by blast
  obtain details evs1 where g: "get_place_details_async cl0 fmt0 place_id evs0 = (details, evs1)"
    by (cases "get_place_details_async cl0 fmt0 place_id evs0")
  have l: "load_details_cache (details_cache s) place_id
             = Inr (Some (case details of None \<Rightarrow> [] | Some d \<Rightarrow> d))"
    using load_fetched_details [of place_id cl0 fmt0 evs0 dir0] c g by simp
  show ?thesis
  proof (cases details)
    case None
    then show ?thesis using l by (auto simp: enrich_restaurant_async_def)
  next
    case (Some d)
    then have "fst ` set d \<subseteq> detail_keys" using fetched_details g by blast
    then have "\<forall>k. k \<notin> detail_keys \<longrightarrow> map_of (dict_update restaurant d) k = map_of restaurant k"
      using dict_update_frame [of _ d restaurant] by blast
    then show ?thesis
      using l Some by (auto simp: enrich_restaurant_async_def)
  qed
qed


theorem enrichment_touches_detail_keys_only_witness:
  "details_cache empty_state (JStr ''a'') = None
   \<and> (\<exists>s1. enrich_restaurant_async demo_client demo_fmt (JStr ''a'') entity_a1 empty_state
             = Inr ((entity_a1 @ [(''reviews'', demo_reviews)], False, True), s1))
   \<and> ''id'' \<notin> detail_keys \<and> ''websiteUri'' \<notin> detail_keys \<and> ''rating'' \<notin> detail_keys
   \<and> map_of (entity_a1 @ [(''reviews'', demo_reviews)]) ''id'' = map_of entity_a1 ''id''
   \<and> map_of (entity_a1 @ [(''reviews'', demo_reviews)]) ''websiteUri''
       = map_of entity_a1 ''websiteUri''
   \<and> map_of (entity_a1 @ [(''reviews'', demo_reviews)]) ''rating'' = map_of entity_a1 ''rating''"
  using enrichment_touches_detail_keys_only [of empty_state "JStr ''a''" demo_client demo_fmt
      entity_a1]
  by (simp add: empty_state_def enrich_restaurant_async_def load_details_cache_def
        get_place_details_async_def demo_client_def demo_place_def details_of_response_def
        kept_reviews_def py_sorted_reverse_def MAX_REVIEWS_def get_publish_time_def
        review_early_def review_next_def review_dict_def demo_fmt_def demo_reviews_def
        dict_update_def entity_a1_def detail_keys_def)

section \<open>Properties of a rerun\<close>

















lemma unit_grid_1:
  "generate_grid_cells unit_box 1 (box_polygon unit_box) = Inr [grid_cell unit_box 1 0 0]"
proof -
  have "filter (cell_overlaps_manhattan (box_polygon unit_box)) (lattice_cells unit_box 1)
          = lattice_cells unit_box 1"
    using box_cell_overlaps [of unit_box _ 1]
    by (auto simp: filter_id_conv lattice_member unit_box_def)
  moreover have "lattice_cells unit_box 1 = [grid_cell unit_box 1 0 0]"
    by (simp add: lattice_cells_def)
  ultimately show ?thesis using generated_cells [of 1 unit_box "box_polygon unit_box"] by simp
qed







section \<open>A cache file that cannot be read\<close>

text \<open>
  Claim C9 at a failing input: a grid cache file whose bytes are not valid UTF-8. Reading
  it raises \<^verbatim>\<open>UnicodeDecodeError\<close>, which is neither \<^verbatim>\<open>json.JSONDecodeError\<close> nor
  \<^verbatim>\<open>IOError\<close>: the loader does not return \<^verbatim>\<open>None\<close>, the exception leaves the loader
  and the unit of the cell, and the run ends with it instead of fetching the cell again.
  The details loader does the same.
\<close>

theorem undecodable_bytes_abort_the_run:
  "load_grid_cache (grid_cache garbled_state) (grid_cell unit_box 1 0 0)
     = Inl UnicodeDecodeError
   \<and> load_details_cache [JStr ''a'' \<mapsto> Corrupt UnicodeDecodeError] (JStr ''a'')
     = Inl UnicodeDecodeError
   \<and> process_cell_async demo_client (grid_cell unit_box 1 0 0) garbled_state
     = Inl UnicodeDecodeError
   \<and> main_async demo_client demo_fmt (\<lambda>cells. cells) unit_box 1 (box_polygon unit_box)
        garbled_state
     = Inl UnicodeDecodeError"
  unfolding main_async_def scrape_grid_cells_async_def unit_grid_1
  by (simp add: load_grid_cache_def load_details_cache_def process_cell_async_def
        garbled_state_def)

end
